theory Spec2Isabelle
  imports Main
begin

section \<open>The extension entry point as an event-driven state machine\<close>

text \<open>
  The module \<^verbatim>\<open>src/extension.ts\<close> (the version with the startup retry) is a set of
  handlers that the host's event loop runs one at a time: \<^verbatim>\<open>activate\<close>, the five
  registered commands, the two quota-manager callbacks, the configuration listener, the
  callbacks of \<^verbatim>\<open>setTimeout\<close> and \<^verbatim>\<open>deactivate\<close>. The only suspension point is
  \<^verbatim>\<open>await process_finder.detect_process_info()\<close> inside \<^verbatim>\<open>initialize_extension\<close>,
  so that function is split at the \<^verbatim>\<open>await\<close> into the part that runs when it is called
  and the part that runs when the detection settles.

  The collaborators \<^verbatim>\<open>ConfigManager\<close>, \<^verbatim>\<open>ProcessFinder\<close>, \<^verbatim>\<open>QuotaManager\<close> and
  \<^verbatim>\<open>StatusBarManager\<close> live in other modules. What they return is a parameter of the
  handler that asks for it (the configuration read by \<^verbatim>\<open>get_config()\<close>, the result of a
  detection), and every call made to them, to \<^verbatim>\<open>vscode.window\<close> and to
  \<^verbatim>\<open>setTimeout\<close> is recorded, in order, in the \<open>effects\<close> of the state. Those calls are
  taken to return normally; the one call whose failure the module handles itself, the
  detection, can end by throwing. Calls of \<^verbatim>\<open>logger\<close> other than \<^verbatim>\<open>logger.show()\<close>
  only write log lines and are left out.

  The module never calls \<^verbatim>\<open>clearTimeout\<close> and keeps no handle of a timer, so a timer
  once set stays pending until its callback runs. Time itself is not modelled: pending
  timers may run in any order, and a detection may take any time to settle.
\<close>

subsection \<open>Data\<close>

text \<open>The fields of the configuration object that this module reads.\<close>

record config =
  enabled :: bool
  polling_interval :: int
  show_prompt_credits :: "bool option"

text \<open>
  The object a successful detection returns, with the fields the declared type gives it;
  \<open>csrf_token\<close> is a string, as \<^verbatim>\<open>csrf_token.substring(0, 8)\<close> in the log line needs.
\<close>

record process_info =
  extension_port :: int
  connect_port :: int
  csrf_token :: string

text \<open>
  What a \<^verbatim>\<open>throw\<close> or a rejected promise carries. \<^verbatim>\<open>catch (e: any)\<close> receives any
  value: \<^verbatim>\<open>undefined\<close>, \<^verbatim>\<open>null\<close>, or a value whose properties can be read, of which
  the message is kept (an \<^verbatim>\<open>Error\<close> in practice).
\<close>

datatype thrown = ErrorObject string | Undefined | Null

text \<open>
  How \<^verbatim>\<open>await process_finder.detect_process_info()\<close> ends: with an object, with a falsy
  result, or by throwing.
\<close>

datatype detect_result = Found process_info | NotFound | Raised thrown

text \<open>
  The quota snapshot handed to \<^verbatim>\<open>on_update\<close> is built by the quota manager and only
  passed on here, so its type \<open>'snap\<close> is a parameter.
\<close>

datatype 'snap status_bar_call =
    ShowLoading "string option"
  | ShowWaiting
  | ShowError string
  | ShowMenu
  | Update 'snap bool
  | Dispose

datatype quota_manager_call =
    Init int string
  | StartPolling int
  | StopPolling
  | FetchQuota

datatype window_call =
    ShowInformationMessage string
  | ShowErrorMessage string

text \<open>
  One call out of the module. \<open>SetTimeout delay attempt\<close> is
  \<^verbatim>\<open>setTimeout(() => initialize_extension(attempt), delay)\<close>.
\<close>

datatype 'snap effect =
    StatusBar "'snap status_bar_call"
  | QuotaManager quota_manager_call
  | Window window_call
  | LoggerShow
  | DetectProcessInfo
  | SetTimeout nat nat

text \<open>
  \<open>is_initialized\<close> is the module variable of that name. \<open>activated\<close> says that
  \<^verbatim>\<open>activate\<close> has run: the four managers exist and the commands and listeners are
  registered. \<open>in_flight\<close> holds the suspended calls of \<^verbatim>\<open>initialize_extension\<close>, each with
  its locals \<^verbatim>\<open>attempt\<close> and \<^verbatim>\<open>config\<close>; \<open>timers\<close> holds the callbacks of
  \<^verbatim>\<open>setTimeout\<close> that have not run yet, each with its delay in milliseconds and the
  attempt number it will pass.
\<close>

record 'snap state =
  is_initialized :: bool
  activated :: bool
  in_flight :: "(nat \<times> config) list"
  timers :: "(nat \<times> nat) list"
  effects :: "'snap effect list"

definition init_state :: "'snap state" where
  "init_state = \<lparr>is_initialized = False, activated = False, in_flight = [], timers = [],
     effects = []\<rparr>"

definition emit :: "'snap effect \<Rightarrow> 'snap state \<Rightarrow> 'snap state" where
  "emit e s = s\<lparr>effects := effects s @ [e]\<rparr>"

definition set_timeout :: "nat \<Rightarrow> nat \<Rightarrow> 'snap state \<Rightarrow> 'snap state" where
  "set_timeout delay attempt s =
     s\<lparr>timers := timers s @ [(delay, attempt)],
       effects := effects s @ [SetTimeout delay attempt]\<rparr>"

definition remove_nth :: "nat \<Rightarrow> 'a list \<Rightarrow> 'a list" where
  "remove_nth i xs = take i xs @ drop (Suc i) xs"

subsection \<open>Template literals\<close>

text \<open>The decimal rendering a template literal gives a non-negative integer.\<close>

definition digit_char :: "nat \<Rightarrow> char" where
  "digit_char d = ''0123456789'' ! d"

fun show_nat :: "nat \<Rightarrow> string" where
  "show_nat n = (if n < 10 then [digit_char n] else show_nat (n div 10) @ [digit_char (n mod 10)])"

declare show_nat.simps [simp del]

subsection \<open>\<^verbatim>\<open>initialize_extension\<close>\<close>

definition MAX_PHASE1_ATTEMPTS :: nat where
  "MAX_PHASE1_ATTEMPTS = 12"

definition MAX_PHASE2_ATTEMPTS :: nat where
  "MAX_PHASE2_ATTEMPTS = 9"

definition MAX_ATTEMPTS :: nat where
  "MAX_ATTEMPTS = MAX_PHASE1_ATTEMPTS + MAX_PHASE2_ATTEMPTS"

text \<open>The argument of \<^verbatim>\<open>status_bar.show_loading\<close> in \<^verbatim>\<open>initialize_extension\<close>.\<close>

definition loading_text :: "nat \<Rightarrow> string option" where
  "loading_text attempt =
     (if attempt > 0
      then Some (''('' @ show_nat attempt @ ''/'' @ show_nat MAX_ATTEMPTS @ '')'')
      else None)"

text \<open>
  From the call to the \<^verbatim>\<open>await\<close>: return at once when \<open>is_initialized\<close>; otherwise read the
  configuration, show the loading text, start the detection and suspend.
\<close>

definition initialize_extension :: "config \<Rightarrow> nat \<Rightarrow> 'snap state \<Rightarrow> 'snap state" where
  "initialize_extension cfg attempt s =
     (if is_initialized s then s
      else
        let s1 = emit (StatusBar (ShowLoading (loading_text attempt))) s;
            s2 = emit DetectProcessInfo s1
        in s2\<lparr>in_flight := in_flight s2 @ [(attempt, cfg)]\<rparr>)"

text \<open>
  The body of the \<^verbatim>\<open>try\<close> block from the \<^verbatim>\<open>await\<close> on. \<open>Inl\<close> is the exception
  the \<^verbatim>\<open>await\<close> throws.
\<close>

definition try_block ::
  "nat \<Rightarrow> config \<Rightarrow> detect_result \<Rightarrow> 'snap state \<Rightarrow> thrown + 'snap state" where
  "try_block attempt cfg r s =
     (case r of
        Raised e \<Rightarrow> Inl e
      | Found info \<Rightarrow>
          (let s1 = emit (QuotaManager (Init (connect_port info) (csrf_token info))) s;
               s2 = (if enabled cfg
                     then emit (QuotaManager (StartPolling (polling_interval cfg))) s1
                     else s1)
           in Inr (s2\<lparr>is_initialized := True\<rparr>))
      | NotFound \<Rightarrow>
          (let (delay, should_retry) =
                 (if attempt < MAX_PHASE1_ATTEMPTS then (5000, True)
                  else if attempt < MAX_ATTEMPTS then (60000, True)
                  else (0, False))
           in Inr (if should_retry then set_timeout delay (attempt + 1) s
                   else emit (StatusBar ShowWaiting) s)))"

text \<open>
  The \<^verbatim>\<open>catch\<close> block. Its first statement builds the log record from \<^verbatim>\<open>e.message\<close>
  and \<^verbatim>\<open>e.stack\<close>. Reading a property of \<^verbatim>\<open>undefined\<close> or \<^verbatim>\<open>null\<close> throws a
  \<^verbatim>\<open>TypeError\<close>, which leaves the block before anything else is done (\<open>Inl\<close>); for
  any other value the reads succeed and the retry follows.
\<close>

definition property_read_error :: "string \<Rightarrow> thrown" where
  "property_read_error v =
     ErrorObject (''TypeError: Cannot read properties of '' @ v @ '' (reading message)'')"

definition catch_block :: "nat \<Rightarrow> thrown \<Rightarrow> 'snap state \<Rightarrow> thrown + 'snap state" where
  "catch_block attempt e s =
     (case e of
        Undefined \<Rightarrow> Inl (property_read_error ''undefined'')
      | Null \<Rightarrow> Inl (property_read_error ''null'')
      | ErrorObject message \<Rightarrow>
          Inr (if attempt < MAX_ATTEMPTS
               then set_timeout (if attempt < MAX_PHASE1_ATTEMPTS then 5000 else 60000)
                      (attempt + 1) s
               else emit (StatusBar ShowWaiting) s))"

text \<open>
  From the \<^verbatim>\<open>await\<close> to the end of the function. \<open>Inl\<close> is an exception leaving
  \<^verbatim>\<open>initialize_extension\<close>, that is, a rejected promise.
\<close>

definition initialize_extension_settled ::
  "nat \<Rightarrow> config \<Rightarrow> detect_result \<Rightarrow> 'snap state \<Rightarrow> thrown + 'snap state" where
  "initialize_extension_settled attempt cfg r s =
     (case try_block attempt cfg r s of
        Inr s' \<Rightarrow> Inr s'
      | Inl e \<Rightarrow> catch_block attempt e s)"

subsection \<open>Handlers\<close>

text \<open>
  \<^verbatim>\<open>activate\<close>: build the managers, register commands and callbacks, start
  \<^verbatim>\<open>initialize_extension()\<close> without waiting for it.
\<close>

definition activate :: "config \<Rightarrow> 'snap state \<Rightarrow> 'snap state" where
  "activate cfg s = initialize_extension cfg 0 (s\<lparr>activated := True\<rparr>)"

definition cmd_refresh :: "'snap state \<Rightarrow> 'snap state" where
  "cmd_refresh s =
     emit (QuotaManager FetchQuota)
       (emit (Window (ShowInformationMessage ''Refreshing Quota...'')) s)"

definition cmd_show_menu :: "'snap state \<Rightarrow> 'snap state" where
  "cmd_show_menu s = emit (StatusBar ShowMenu) s"

definition cmd_activate :: "config \<Rightarrow> 'snap state \<Rightarrow> 'snap state" where
  "cmd_activate cfg s =
     (if \<not> is_initialized s then initialize_extension cfg 0 s
      else emit (Window (ShowInformationMessage ''AGQ is already active'')) s)"

definition cmd_reconnect :: "config \<Rightarrow> 'snap state \<Rightarrow> 'snap state" where
  "cmd_reconnect cfg s =
     (let s1 = emit (Window (ShowInformationMessage
                 ''Reconnecting to Antigravity process...'')) s;
          s2 = s1\<lparr>is_initialized := False\<rparr>;
          s3 = emit (QuotaManager StopPolling) s2;
          s4 = emit (StatusBar (ShowLoading None)) s3
      in initialize_extension cfg 0 s4)"

definition cmd_show_logs :: "'snap state \<Rightarrow> 'snap state" where
  "cmd_show_logs s =
     emit (Window (ShowInformationMessage ''Debug log panel opened'')) (emit LoggerShow s)"

definition on_update :: "'snap \<Rightarrow> config \<Rightarrow> 'snap state \<Rightarrow> 'snap state" where
  "on_update snap current_config s =
     emit (StatusBar (Update snap
       (case show_prompt_credits current_config of Some b \<Rightarrow> b | None \<Rightarrow> False))) s"

definition on_error :: "string \<Rightarrow> 'snap state \<Rightarrow> 'snap state" where
  "on_error message s = emit (StatusBar (ShowError message)) s"

definition on_config_change :: "config \<Rightarrow> 'snap state \<Rightarrow> 'snap state" where
  "on_config_change new_config s =
     (if enabled new_config
      then emit (QuotaManager (StartPolling (polling_interval new_config))) s
      else emit (QuotaManager StopPolling) s)"

text \<open>
  \<^verbatim>\<open>deactivate\<close>: the two calls are guarded by \<^verbatim>\<open>?.\<close>, so nothing happens when the
  managers were never built.
\<close>

definition deactivate :: "'snap state \<Rightarrow> 'snap state" where
  "deactivate s =
     (if activated s
      then emit (StatusBar Dispose) (emit (QuotaManager StopPolling) s)
      else s)"

text \<open>The callback of the \<open>i\<close>-th pending timer runs.\<close>

definition timer_fire :: "nat \<Rightarrow> config \<Rightarrow> 'snap state \<Rightarrow> 'snap state" where
  "timer_fire i cfg s =
     initialize_extension cfg (snd (timers s ! i)) (s\<lparr>timers := remove_nth i (timers s)\<rparr>)"

text \<open>
  The \<open>i\<close>-th detection in flight settles with \<open>r\<close>, and its call of
  \<^verbatim>\<open>initialize_extension\<close> resumes. When the resumed call rejects, the module does
  nothing more: \<^verbatim>\<open>activate\<close> only logs the rejection, a command handler passes it on
  to the host, and the timer callback drops the promise.
\<close>

definition detect_settled :: "nat \<Rightarrow> detect_result \<Rightarrow> 'snap state \<Rightarrow> 'snap state" where
  "detect_settled i r s =
     (case in_flight s ! i of (attempt, cfg) \<Rightarrow>
        (case initialize_extension_settled attempt cfg r
                (s\<lparr>in_flight := remove_nth i (in_flight s)\<rparr>) of
           Inr s' \<Rightarrow> s'
         | Inl e \<Rightarrow> s\<lparr>in_flight := remove_nth i (in_flight s)\<rparr>))"

subsection \<open>The event loop\<close>

text \<open>
  An event carries what the environment supplies: the configuration \<^verbatim>\<open>get_config()\<close>
  returns at that moment, the index of the timer or detection concerned, the detection's
  result. The host calls \<^verbatim>\<open>activate\<close> once; commands, callbacks and the configuration
  listener exist only once \<^verbatim>\<open>activate\<close> has registered them; a timer or a detection that
  does not exist cannot run. An event that cannot happen leaves the state as it is.
  Nothing in the module unregisters a handler or clears a timer on \<^verbatim>\<open>deactivate\<close>, so
  every event stays possible after it.
\<close>

datatype 'snap event =
    Activate config
  | CmdRefresh
  | CmdShowMenu
  | CmdActivate config
  | CmdReconnect config
  | CmdShowLogs
  | QuotaUpdate 'snap config
  | QuotaError string
  | ConfigChange config
  | TimerFire nat config
  | DetectSettled nat detect_result
  | Deactivate

fun step :: "'snap event \<Rightarrow> 'snap state \<Rightarrow> 'snap state" where
  "step (Activate cfg) s = (if activated s then s else activate cfg s)"
| "step CmdRefresh s = (if activated s then cmd_refresh s else s)"
| "step CmdShowMenu s = (if activated s then cmd_show_menu s else s)"
| "step (CmdActivate cfg) s = (if activated s then cmd_activate cfg s else s)"
| "step (CmdReconnect cfg) s = (if activated s then cmd_reconnect cfg s else s)"
| "step CmdShowLogs s = (if activated s then cmd_show_logs s else s)"
| "step (QuotaUpdate snap cfg) s = (if activated s then on_update snap cfg s else s)"
| "step (QuotaError m) s = (if activated s then on_error m s else s)"
| "step (ConfigChange cfg) s = (if activated s then on_config_change cfg s else s)"
| "step (TimerFire i cfg) s = (if i < length (timers s) then timer_fire i cfg s else s)"
| "step (DetectSettled i r) s = (if i < length (in_flight s) then detect_settled i r s else s)"
| "step Deactivate s = deactivate s"

fun run :: "'snap event list \<Rightarrow> 'snap state \<Rightarrow> 'snap state" where
  "run [] s = s"
| "run (e # es) s = run es (step e s)"

subsection \<open>Observations\<close>

text \<open>The calls an event adds to the trace when it is handled in state \<open>s\<close>.\<close>

definition emitted :: "'snap event \<Rightarrow> 'snap state \<Rightarrow> 'snap effect list" where
  "emitted e s = drop (length (effects s)) (effects (step e s))"

text \<open>Every call of \<^verbatim>\<open>setTimeout\<close> so far, as (delay, attempt), oldest first.\<close>

fun timeout_of :: "'snap effect \<Rightarrow> (nat \<times> nat) list" where
  "timeout_of (SetTimeout delay attempt) = [(delay, attempt)]"
| "timeout_of _ = []"

definition scheduled :: "'snap state \<Rightarrow> (nat \<times> nat) list" where
  "scheduled s = concat (map timeout_of (effects s))"

text \<open>The number of calls of \<^verbatim>\<open>detect_process_info\<close> so far.\<close>

definition detections :: "'snap state \<Rightarrow> nat" where
  "detections s = length (filter (\<lambda>e. e = DetectProcessInfo) (effects s))"

text \<open>
  A retry chain is either waiting for its detection or waiting for its timer, so the
  number of chains alive is the number of detections in flight plus the number of
  pending timers.
\<close>

definition chains :: "'snap state \<Rightarrow> nat" where
  "chains s = length (in_flight s) + length (timers s)"

text \<open>The events that call \<^verbatim>\<open>initialize_extension()\<close> with the default attempt 0.\<close>

fun starts_chain :: "'snap event \<Rightarrow> bool" where
  "starts_chain (Activate cfg) = True"
| "starts_chain (CmdActivate cfg) = True"
| "starts_chain (CmdReconnect cfg) = True"
| "starts_chain _ = False"

fun is_reconnect :: "'snap event \<Rightarrow> bool" where
  "is_reconnect (CmdReconnect cfg) = True"
| "is_reconnect _ = False"


subsection \<open>The run in which no detection finds the process\<close>

text \<open>
  The events from activation up to the start of attempt \<open>n\<close> when every detection before
  it ended with not-found: the only detection in flight settles, then the only timer
  runs. Appending one more \<open>DetectSettled 0 NotFound\<close> gives the run up to failure
  number \<open>n + 1\<close>.
\<close>

fun all_not_found :: "config \<Rightarrow> nat \<Rightarrow> 'snap event list" where
  "all_not_found cfg 0 = [Activate cfg]"
| "all_not_found cfg (Suc n) =
     all_not_found cfg n @ [DetectSettled 0 NotFound, TimerFire 0 cfg]"

text \<open>The trace of that run, used to describe its states in closed form.\<close>

fun not_found_trace :: "nat \<Rightarrow> 'snap effect list" where
  "not_found_trace 0 = [StatusBar (ShowLoading (loading_text 0)), DetectProcessInfo]"
| "not_found_trace (Suc n) =
     not_found_trace n @
     [SetTimeout (if n < 12 then 5000 else 60000) (Suc n),
      StatusBar (ShowLoading (loading_text (Suc n))), DetectProcessInfo]"

subsection \<open>Example inputs\<close>

definition example_config :: config where
  "example_config = \<lparr>enabled = True, polling_interval = 120000, show_prompt_credits = None\<rparr>"

definition disabled_config :: config where
  "disabled_config = \<lparr>enabled = False, polling_interval = 120000, show_prompt_credits = None\<rparr>"

definition example_info :: process_info where
  "example_info = \<lparr>extension_port = 42100, connect_port = 42101, csrf_token = ''s3cr3t-t0ken''\<rparr>"

section \<open>Facts about the handlers\<close>

lemma show_nat_MAX_ATTEMPTS: "show_nat MAX_ATTEMPTS = ''21''"
  by (simp add: MAX_ATTEMPTS_def MAX_PHASE1_ATTEMPTS_def MAX_PHASE2_ATTEMPTS_def
      show_nat.simps digit_char_def)

lemma initialize_extension_fresh:
  "\<not> is_initialized s \<Longrightarrow> initialize_extension cfg a s =
     s\<lparr>in_flight := in_flight s @ [(a, cfg)],
       effects := effects s @ [StatusBar (ShowLoading (loading_text a)), DetectProcessInfo]\<rparr>"
  by (simp add: initialize_extension_def emit_def)

lemma initialize_extension_done: "is_initialized s \<Longrightarrow> initialize_extension cfg a s = s"
  by (simp add: initialize_extension_def)

lemma settled_not_found:
  "initialize_extension_settled a cfg NotFound s =
     Inr (if a < 21 then set_timeout (if a < 12 then 5000 else 60000) (a + 1) s
          else emit (StatusBar ShowWaiting) s)"
  by (simp add: initialize_extension_settled_def try_block_def MAX_ATTEMPTS_def
      MAX_PHASE1_ATTEMPTS_def MAX_PHASE2_ATTEMPTS_def)

lemma settled_raised:
  "initialize_extension_settled a cfg (Raised (ErrorObject m)) s =
     Inr (if a < 21 then set_timeout (if a < 12 then 5000 else 60000) (a + 1) s
          else emit (StatusBar ShowWaiting) s)"
  by (simp add: initialize_extension_settled_def try_block_def catch_block_def MAX_ATTEMPTS_def
      MAX_PHASE1_ATTEMPTS_def MAX_PHASE2_ATTEMPTS_def)

lemma settled_found:
  "initialize_extension_settled a cfg (Found info) s =
     Inr (s\<lparr>is_initialized := True,
            effects := effects s @ QuotaManager (Init (connect_port info) (csrf_token info)) #
              (if enabled cfg then [QuotaManager (StartPolling (polling_interval cfg))] else [])\<rparr>)"
  by (simp add: initialize_extension_settled_def try_block_def emit_def)

lemma detect_settled_failed:
  assumes "in_flight s ! i = (a, cfg)" and "r = NotFound \<or> r = Raised (ErrorObject m)"
  shows "detect_settled i r s =
     (if a < 21
      then s\<lparr>in_flight := remove_nth i (in_flight s),
             timers := timers s @ [(if a < 12 then 5000 else 60000, a + 1)],
             effects := effects s @ [SetTimeout (if a < 12 then 5000 else 60000) (a + 1)]\<rparr>
      else s\<lparr>in_flight := remove_nth i (in_flight s),
             effects := effects s @ [StatusBar ShowWaiting]\<rparr>)"
  using assms
  by (auto simp add: detect_settled_def settled_not_found settled_raised set_timeout_def emit_def)

lemma detect_settled_found:
  assumes "in_flight s ! i = (a, cfg)"
  shows "detect_settled i (Found info) s =
     s\<lparr>is_initialized := True, in_flight := remove_nth i (in_flight s),
       effects := effects s @ QuotaManager (Init (connect_port info) (csrf_token info)) #
         (if enabled cfg then [QuotaManager (StartPolling (polling_interval cfg))] else [])\<rparr>"
  using assms by (simp add: detect_settled_def settled_found)

lemma detect_settled_rejected:
  assumes "in_flight s ! i = (a, cfg)" and "r = Raised Undefined \<or> r = Raised Null"
  shows "detect_settled i r s = s\<lparr>in_flight := remove_nth i (in_flight s)\<rparr>"
  using assms
  by (auto simp add: detect_settled_def initialize_extension_settled_def try_block_def
      catch_block_def)

lemma detect_settled_cases:
  "detect_settled i r s =
     (case in_flight s ! i of (a, cfg) \<Rightarrow>
        (if r = Raised Undefined \<or> r = Raised Null
         then s\<lparr>in_flight := remove_nth i (in_flight s)\<rparr>
         else
           (case r of
              Found info \<Rightarrow>
                s\<lparr>is_initialized := True, in_flight := remove_nth i (in_flight s),
                  effects := effects s @
                    QuotaManager (Init (connect_port info) (csrf_token info)) #
                    (if enabled cfg then [QuotaManager (StartPolling (polling_interval cfg))]
                     else [])\<rparr>
            | _ \<Rightarrow>
                (if a < 21
                 then s\<lparr>in_flight := remove_nth i (in_flight s),
                        timers := timers s @ [(if a < 12 then 5000 else 60000, a + 1)],
                        effects := effects s @
                          [SetTimeout (if a < 12 then 5000 else 60000) (a + 1)]\<rparr>
                 else s\<lparr>in_flight := remove_nth i (in_flight s),
                        effects := effects s @ [StatusBar ShowWaiting]\<rparr>))))"
proof (cases "in_flight s ! i")
  case (Pair a cfg)
  show ?thesis
  proof (cases r)
    case (Found info)
    then show ?thesis using Pair by (simp add: detect_settled_found)
  next
    case NotFound
    then show ?thesis using Pair detect_settled_failed [of s i a cfg r] by simp
  next
    case (Raised e)
    show ?thesis
    proof (cases e)
      case (ErrorObject m)
      then show ?thesis
        using Pair Raised detect_settled_failed [of s i a cfg r m] by simp
    next
      case Undefined
      then show ?thesis
        using Pair Raised detect_settled_rejected [of s i a cfg r] by simp
    next
      case Null
      then show ?thesis
        using Pair Raised detect_settled_rejected [of s i a cfg r] by simp
    qed
  qed
qed

lemma timer_fire_fresh:
  "\<not> is_initialized s \<Longrightarrow> timer_fire i cfg s =
     s\<lparr>in_flight := in_flight s @ [(snd (timers s ! i), cfg)],
       timers := remove_nth i (timers s),
       effects := effects s @
         [StatusBar (ShowLoading (loading_text (snd (timers s ! i)))), DetectProcessInfo]\<rparr>"
  by (simp add: timer_fire_def initialize_extension_fresh)

lemmas handler_defs =
  activate_def cmd_refresh_def cmd_show_menu_def cmd_activate_def cmd_reconnect_def
  cmd_show_logs_def on_update_def on_error_def on_config_change_def deactivate_def
  timer_fire_def detect_settled_cases initialize_extension_def emit_def

text \<open>Handling an event only adds calls to the trace, so \<open>emitted\<close> loses nothing.\<close>

lemma effects_step: "effects (step e s) = effects s @ emitted e s"
  by (cases e)
    (simp_all add: emitted_def handler_defs Let_def split: prod.splits detect_result.splits)

subsection \<open>Lists\<close>

lemma remove_nth_single [simp]: "remove_nth 0 [x] = []"
  by (simp add: remove_nth_def)

lemma length_remove_nth: "i < length xs \<Longrightarrow> length (remove_nth i xs) = length xs - 1"
  by (auto simp add: remove_nth_def)


lemma map_constant:
  "(\<And>a. a \<in> set xs \<Longrightarrow> f a = c) \<Longrightarrow> map f xs = replicate (length xs) c"
  by (induction xs) auto

lemma map_phase_upt:
  "map (\<lambda>a. if a < m then x else y) [0..<m + k] = replicate m x @ replicate k y"
proof -
  have "[0..<m + k] = [0..<m] @ [m..<m + k]"
    using upt_add_eq_append [of 0 m k] by simp
  moreover have "map (\<lambda>a. if a < m then x else y) [0..<m] = replicate m x"
    using map_constant [of "[0..<m]" "\<lambda>a. if a < m then x else y" x] by simp
  moreover have "map (\<lambda>a. if a < m then x else y) [m..<m + k] = replicate k y"
    using map_constant [of "[m..<m + k]" "\<lambda>a. if a < m then x else y" y] by simp
  ultimately show ?thesis by (simp only: map_append)
qed

lemma run_append: "run (xs @ ys) s = run ys (run xs s)"
  by (induction xs arbitrary: s) simp_all

subsection \<open>The states of the run in which no detection finds the process\<close>

lemma after_rounds:
  "n \<le> 21 \<Longrightarrow> run (all_not_found cfg n) init_state =
     \<lparr>is_initialized = False, activated = True, in_flight = [(n, cfg)], timers = [],
      effects = not_found_trace n\<rparr>"
proof (induction n)
  case 0
  show ?case
    by (simp add: init_state_def activate_def initialize_extension_fresh)
next
  case (Suc n)
  then show ?case
    by (simp add: run_append detect_settled_failed timer_fire_fresh)
qed

lemma after_failure:
  "n < 21 \<Longrightarrow> run (all_not_found cfg n @ [DetectSettled 0 NotFound]) init_state =
     \<lparr>is_initialized = False, activated = True, in_flight = [],
      timers = [(if n < 12 then 5000 else 60000, Suc n)],
      effects = not_found_trace n @ [SetTimeout (if n < 12 then 5000 else 60000) (Suc n)]\<rparr>"
  by (simp add: run_append after_rounds detect_settled_failed)

lemma after_last_failure:
  "run (all_not_found cfg 21 @ [DetectSettled 0 NotFound]) init_state =
     \<lparr>is_initialized = False, activated = True, in_flight = [], timers = [],
      effects = not_found_trace 21 @ [StatusBar ShowWaiting]\<rparr>"
  by (simp add: run_append after_rounds detect_settled_failed)

lemma scheduled_not_found_trace:
  "concat (map timeout_of (not_found_trace n)) =
     map (\<lambda>a. (if a < 12 then 5000 else 60000, Suc a)) [0..<n]"
  by (induction n) simp_all

lemma detections_not_found_trace:
  "length (filter (\<lambda>e. e = DetectProcessInfo) (not_found_trace n)) = Suc n"
  by (induction n) simp_all

lemma no_waiting_not_found_trace: "StatusBar ShowWaiting \<notin> set (not_found_trace n)"
  by (induction n) simp_all

subsection \<open>Invariants of the event loop\<close>

lemma chains_step: "chains (step e s) \<le> chains s + (if starts_chain e then 1 else 0)"
  by (cases e)
    (auto simp add: chains_def handler_defs Let_def length_remove_nth
      split: prod.splits detect_result.splits)

lemma chains_run: "\<forall>e\<in>set es. \<not> starts_chain e \<Longrightarrow> chains (run es s) \<le> chains s"
proof (induction es arbitrary: s)
  case Nil
  show ?case by simp
next
  case (Cons e es)
  have "chains (run es (step e s)) \<le> chains (step e s)"
    using Cons by simp
  also have "\<dots> \<le> chains s"
    using chains_step [of e s] Cons.prems by simp
  finally show ?case by simp
qed

lemma set_timeout_only_when_settled:
  "SetTimeout d a \<in> set (emitted e s) \<Longrightarrow> \<exists>i r. e = DetectSettled i r"
  by (cases e)
    (simp_all add: emitted_def handler_defs Let_def
      split: if_splits prod.splits detect_result.splits)





lemma initialized_step:
  "is_initialized s \<Longrightarrow> \<not> is_reconnect e \<Longrightarrow>
     is_initialized (step e s) \<and> detections (step e s) = detections s"
  by (cases e)
    (auto simp add: detections_def handler_defs Let_def
      split: prod.splits detect_result.splits)

lemma initialized_run:
  "is_initialized s \<Longrightarrow> \<forall>e\<in>set es. \<not> is_reconnect e \<Longrightarrow>
     is_initialized (run es s) \<and> detections (run es s) = detections s"
proof (induction es arbitrary: s)
  case Nil
  then show ?case by simp
next
  case (Cons e es)
  have 1: "is_initialized (step e s) \<and> detections (step e s) = detections s"
    using Cons.prems initialized_step [of s e] by simp
  have 2: "is_initialized (run es (step e s)) \<and>
      detections (run es (step e s)) = detections (step e s)"
    using Cons.IH [of "step e s"] 1 Cons.prems by simp
  show ?case using 1 2 by (simp del: step.simps)
qed

section \<open>The claims\<close>

subsection \<open>C1: the schedule when every detection fails\<close>

text \<open>
  C1, amended. In the run in which every detection ends with not-found, the controller
  sets 21 timers: attempts 0 to 11 each set one of 5000 ms and attempts 12 to 20 each set
  one of 60000 ms, every one for the next attempt number. That makes 12 delays of 5
  seconds followed by 9 delays of 60 seconds. Attempt 21 is the twenty-second detection;
  the waiting signal has not been shown before it, and when it fails too the controller
  shows the waiting signal and nothing else, sets no timer and leaves no detection in
  flight, so no further attempt follows by itself.
\<close>

theorem all_not_found_schedule:
  "scheduled (run (all_not_found cfg 21 @ [DetectSettled 0 NotFound]) init_state) =
     map (\<lambda>a. (if a < 12 then 5000 else 60000, Suc a)) [0..<21] \<and>
   map fst (scheduled (run (all_not_found cfg 21 @ [DetectSettled 0 NotFound]) init_state)) =
     replicate 12 5000 @ replicate 9 60000 \<and>
   detections (run (all_not_found cfg 21 @ [DetectSettled 0 NotFound]) init_state) = 22 \<and>
   StatusBar ShowWaiting \<notin> set (effects (run (all_not_found cfg 21) init_state)) \<and>
   emitted (DetectSettled 0 NotFound) (run (all_not_found cfg 21) init_state) =
     [StatusBar ShowWaiting] \<and>
   timers (run (all_not_found cfg 21 @ [DetectSettled 0 NotFound]) init_state) = [] \<and>
   in_flight (run (all_not_found cfg 21 @ [DetectSettled 0 NotFound]) init_state) = [] \<and>
   \<not> is_initialized (run (all_not_found cfg 21 @ [DetectSettled 0 NotFound]) init_state)"
proof -
  let ?s = "run (all_not_found cfg 21 @ [DetectSettled 0 NotFound]) init_state"
  have 1: "scheduled ?s = map (\<lambda>a. (if a < 12 then 5000 else 60000, Suc a)) [0..<21]"
    by (simp only: after_last_failure scheduled_def state.simps map_append concat_append
        scheduled_not_found_trace) simp
  have 2: "map fst (scheduled ?s) = replicate 12 5000 @ replicate 9 60000"
    unfolding 1 using map_phase_upt [of 12 5000 60000 9] by (simp add: comp_def)
  have 3: "detections ?s = 22"
    by (simp add: after_last_failure detections_def detections_not_found_trace)
  have 4: "StatusBar ShowWaiting \<notin> set (effects (run (all_not_found cfg 21) init_state))"
    by (simp add: after_rounds no_waiting_not_found_trace)
  have 5: "emitted (DetectSettled 0 NotFound) (run (all_not_found cfg 21) init_state) =
      [StatusBar ShowWaiting]"
    by (simp add: emitted_def after_rounds detect_settled_failed)
  have 6: "timers ?s = [] \<and> in_flight ?s = [] \<and> \<not> is_initialized ?s"
    by (simp add: after_last_failure)
  show ?thesis using 1 2 3 4 5 6 by (simp only: simp_thms)
qed

theorem all_not_found_schedule_witness:
  "map fst (scheduled (run (all_not_found example_config 21 @ [DetectSettled 0 NotFound])
     (init_state :: unit state))) = replicate 12 5000 @ replicate 9 60000 \<and>
   detections (run (all_not_found example_config 21 @ [DetectSettled 0 NotFound])
     (init_state :: unit state)) = 22 \<and>
   timers (run (all_not_found example_config 21 @ [DetectSettled 0 NotFound])
     (init_state :: unit state)) = []"
  using all_not_found_schedule [of example_config] by blast

text \<open>
  C1 as stated fails: it places the waiting state after 21 failures. After the
  twenty-first failure (attempt 20) the timer of 60000 ms for attempt 21 is pending and
  the waiting signal has not been shown.
\<close>

theorem waiting_not_after_21_failures:
  "detections (run (all_not_found example_config 20 @ [DetectSettled 0 NotFound])
     (init_state :: unit state)) = 21 \<and>
   timers (run (all_not_found example_config 20 @ [DetectSettled 0 NotFound])
     (init_state :: unit state)) = [(60000, 21)] \<and>
   StatusBar ShowWaiting \<notin> set (effects (run (all_not_found example_config 20 @
     [DetectSettled 0 NotFound]) (init_state :: unit state)))"
  by (simp add: after_failure detections_def detections_not_found_trace
      no_waiting_not_found_trace)

subsection \<open>C2: the reconnect command\<close>

text \<open>
  C2, amended. In every state the reconnect command shows its message, clears
  \<open>is_initialized\<close>, stops polling, shows the loading signal and starts a detection for
  attempt 0; when that detection fails, by not-found or by an exception, the delay set is
  5000 ms. It leaves the pending timers as they are: nothing is cancelled.
\<close>

theorem reconnect_restarts_without_cancelling:
  "activated s \<Longrightarrow>
     step (CmdReconnect cfg) s =
       s\<lparr>is_initialized := False,
         in_flight := in_flight s @ [(0, cfg)],
         effects := effects s @
           [Window (ShowInformationMessage ''Reconnecting to Antigravity process...''),
            QuotaManager StopPolling, StatusBar (ShowLoading None),
            StatusBar (ShowLoading None), DetectProcessInfo]\<rparr> \<and>
     timers (step (CmdReconnect cfg) s) = timers s \<and>
     emitted (DetectSettled (length (in_flight s)) NotFound) (step (CmdReconnect cfg) s) =
       [SetTimeout 5000 1] \<and>
     emitted (DetectSettled (length (in_flight s)) (Raised (ErrorObject m)))
         (step (CmdReconnect cfg) s) =
       [SetTimeout 5000 1]"
  by (simp add: cmd_reconnect_def Let_def emit_def initialize_extension_def loading_text_def
      emitted_def detect_settled_cases)

text \<open>The witness is the waiting state reached after 22 failures.\<close>

theorem reconnect_restarts_without_cancelling_witness:
  "activated (run (all_not_found example_config 21 @ [DetectSettled 0 NotFound])
      (init_state :: unit state)) \<and>
   in_flight (step (CmdReconnect example_config)
     (run (all_not_found example_config 21 @ [DetectSettled 0 NotFound])
        (init_state :: unit state))) = [(0, example_config)] \<and>
   emitted (DetectSettled 0 NotFound) (step (CmdReconnect example_config)
     (run (all_not_found example_config 21 @ [DetectSettled 0 NotFound])
        (init_state :: unit state))) = [SetTimeout 5000 1]"
proof -
  let ?s = "run (all_not_found example_config 21 @ [DetectSettled 0 NotFound])
      (init_state :: unit state)"
  have a: "activated ?s"
    by (simp add: after_last_failure)
  have l: "length (in_flight ?s) = 0"
    by (simp add: after_last_failure)
  note t = reconnect_restarts_without_cancelling [OF a, of example_config]
  have 1: "in_flight (step (CmdReconnect example_config) ?s) = [(0, example_config)]"
    using t l by (simp del: step.simps)
  have 2: "emitted (DetectSettled 0 NotFound) (step (CmdReconnect example_config) ?s) =
      [SetTimeout 5000 1]"
    using t [THEN conjunct2, THEN conjunct2, THEN conjunct1] by (simp only: l)
  show ?thesis
    using a 1 2 by (simp only: simp_thms)
qed

text \<open>
  C2 as stated fails: a pending attempt is not cancelled. After one failure the timer for
  attempt 1 is pending; it is still pending after the reconnect command, and when it runs
  it starts a detection next to the one the command started.
\<close>

theorem scheduled_attempt_survives_reconnect:
  "timers (run [Activate example_config, DetectSettled 0 NotFound, CmdReconnect example_config]
     (init_state :: unit state)) = [(5000, 1)] \<and>
   emitted (TimerFire 0 example_config)
     (run [Activate example_config, DetectSettled 0 NotFound, CmdReconnect example_config]
        (init_state :: unit state)) =
     [StatusBar (ShowLoading (Some ''(1/21)'')), DetectProcessInfo] \<and>
   in_flight (run [Activate example_config, DetectSettled 0 NotFound,
      CmdReconnect example_config, TimerFire 0 example_config] (init_state :: unit state)) =
     [(0, example_config), (1, example_config)]"
  by (simp add: init_state_def handler_defs Let_def remove_nth_def emitted_def
      loading_text_def show_nat.simps digit_char_def MAX_ATTEMPTS_def
      MAX_PHASE1_ATTEMPTS_def MAX_PHASE2_ATTEMPTS_def)

subsection \<open>C3: detections in flight\<close>

text \<open>
  C3, amended. Within one chain the next attempt is scheduled only after the previous one
  has settled: a timer is set only by the handler of a settled detection, and no event
  other than activation, the activate command and the reconnect command raises the number
  of chains (detections in flight plus pending timers); those three raise it by at most
  one. So in a run that consists of the activation followed by no activate or reconnect
  command, at most one detection is in flight or one timer pending. The two commands do
  start a further chain next to a running one.
\<close>

theorem one_chain_without_commands:
  "chains (step e s) \<le> chains s + (if starts_chain e then 1 else 0) \<and>
   (SetTimeout d a \<in> set (emitted e s) \<longrightarrow> (\<exists>i r. e = DetectSettled i r)) \<and>
   ((\<forall>e\<in>set es. \<not> starts_chain e) \<longrightarrow>
      length (in_flight (run (Activate cfg # es) (init_state :: 'snap state))) +
      length (timers (run (Activate cfg # es) (init_state :: 'snap state))) \<le> 1)"
proof (intro conjI impI)
  show "chains (step e s) \<le> chains s + (if starts_chain e then 1 else 0)"
    by (rule chains_step)
next
  assume "SetTimeout d a \<in> set (emitted e s)"
  then show "\<exists>i r. e = DetectSettled i r"
    by (rule set_timeout_only_when_settled)
next
  assume a: "\<forall>e\<in>set es. \<not> starts_chain e"
  have one: "chains (step (Activate cfg) (init_state :: 'snap state)) = 1"
    by (simp add: chains_def init_state_def activate_def initialize_extension_fresh)
  show "length (in_flight (run (Activate cfg # es) (init_state :: 'snap state))) +
      length (timers (run (Activate cfg # es) (init_state :: 'snap state))) \<le> 1"
    using chains_run [OF a, of "step (Activate cfg) init_state"] one
    by (simp add: chains_def del: step.simps)
qed

theorem one_chain_without_commands_witness:
  "SetTimeout 5000 1 \<in> set (emitted (DetectSettled 0 NotFound)
      (step (Activate example_config) (init_state :: unit state))) \<and>
   \<not> starts_chain (DetectSettled 0 NotFound :: unit event) \<and>
   \<not> starts_chain (TimerFire 0 example_config :: unit event) \<and>
   length (in_flight (run [Activate example_config, DetectSettled 0 NotFound,
      TimerFire 0 example_config] (init_state :: unit state))) +
   length (timers (run [Activate example_config, DetectSettled 0 NotFound,
      TimerFire 0 example_config] (init_state :: unit state))) \<le> 1"
proof -
  have 1: "SetTimeout 5000 1 \<in> set (emitted (DetectSettled 0 NotFound)
      (step (Activate example_config) (init_state :: unit state)))"
    by (simp add: emitted_def init_state_def handler_defs Let_def)
  have 2: "\<forall>e\<in>set [DetectSettled 0 NotFound, TimerFire 0 example_config :: unit event].
      \<not> starts_chain e"
    by simp
  have 3: "length (in_flight (run (Activate example_config #
        [DetectSettled 0 NotFound, TimerFire 0 example_config]) (init_state :: unit state))) +
      length (timers (run (Activate example_config #
        [DetectSettled 0 NotFound, TimerFire 0 example_config]) (init_state :: unit state))) \<le> 1"
    using one_chain_without_commands [of "DetectSettled 0 NotFound"
        "step (Activate example_config) (init_state :: unit state)" 5000 1
        "[DetectSettled 0 NotFound, TimerFire 0 example_config]" example_config] 1 2
    by blast
  show ?thesis using 1 3 by simp
qed

text \<open>
  C3 as stated fails: while the detection started by the activation is in flight, the
  reconnect command starts a second one, and so does the activate command; and a timer
  set before the activate command runs into the detection that command started.
\<close>

theorem two_detections_in_flight:
  "in_flight (run [Activate example_config, CmdReconnect example_config]
      (init_state :: unit state)) = [(0, example_config), (0, example_config)] \<and>
   in_flight (run [Activate example_config, CmdActivate example_config]
      (init_state :: unit state)) = [(0, example_config), (0, example_config)] \<and>
   in_flight (run [Activate example_config, DetectSettled 0 NotFound,
      CmdActivate example_config, TimerFire 0 example_config]
      (init_state :: unit state)) = [(0, example_config), (1, example_config)]"
  by (simp add: init_state_def handler_defs Let_def remove_nth_def)

subsection \<open>C4: an exception during a detection\<close>

text \<open>
  When the detection throws a value whose properties can be read, the \<^verbatim>\<open>catch\<close> block
  does what the not-found branch does: for an attempt below 12 it sets a timer of 5000 ms
  for the next attempt, for an attempt from 12 to 20 one of 60000 ms, and from attempt 21
  on it shows the waiting signal. The resulting state is the one a not-found result
  gives, and the call ends normally.
\<close>

lemma error_object_handled_as_not_found:
  "initialize_extension_settled attempt cfg (Raised (ErrorObject m)) s =
     Inr (if attempt < 12 then set_timeout 5000 (attempt + 1) s
          else if attempt < 21 then set_timeout 60000 (attempt + 1) s
          else emit (StatusBar ShowWaiting) s) \<and>
   initialize_extension_settled attempt cfg (Raised (ErrorObject m)) s =
     initialize_extension_settled attempt cfg NotFound s \<and>
   step (DetectSettled i (Raised (ErrorObject m))) s = step (DetectSettled i NotFound) s"
  by (simp add: settled_raised settled_not_found detect_settled_def split: prod.splits)

text \<open>
  C4 says that no exception thrown during a detection leaves the controller or ends the
  retry sequence, and the comment in the \<^verbatim>\<open>catch\<close> block says the same
  (\<^verbatim>\<open>Still retry on exception if we haven't reached max attempts\<close>). The code misses
  one case. When the detection rejects with
  \<^verbatim>\<open>undefined\<close> (or \<^verbatim>\<open>null\<close>), the first statement of the \<^verbatim>\<open>catch\<close> block, which
  reads \<^verbatim>\<open>e.message\<close> for the log line, throws a \<^verbatim>\<open>TypeError\<close>: the call of
  \<^verbatim>\<open>initialize_extension\<close> rejects, no timer is set and no waiting signal is shown, so
  the retry sequence ends there with nothing in flight and nothing pending. A not-found
  result at the same attempt sets the timer of 5000 ms.
\<close>

theorem nullish_rejection_ends_retry:
  "initialize_extension_settled 0 example_config (Raised Undefined)
      (init_state :: unit state) =
     Inl (ErrorObject
       ''TypeError: Cannot read properties of undefined (reading message)'') \<and>
   initialize_extension_settled 0 example_config (Raised Null)
      (init_state :: unit state) =
     Inl (ErrorObject ''TypeError: Cannot read properties of null (reading message)'') \<and>
   run [Activate example_config, DetectSettled 0 (Raised Undefined)]
      (init_state :: unit state) =
     \<lparr>is_initialized = False, activated = True, in_flight = [], timers = [],
      effects = [StatusBar (ShowLoading None), DetectProcessInfo]\<rparr> \<and>
   run [Activate example_config, DetectSettled 0 NotFound] (init_state :: unit state) =
     \<lparr>is_initialized = False, activated = True, in_flight = [], timers = [(5000, 1)],
      effects = [StatusBar (ShowLoading None), DetectProcessInfo, SetTimeout 5000 1]\<rparr>"
  by (simp add: initialize_extension_settled_def try_block_def catch_block_def
      property_read_error_def init_state_def handler_defs Let_def loading_text_def)

subsection \<open>C5: where attempt 0 starts\<close>




subsection \<open>C6: a successful detection\<close>

text \<open>
  C6, amended. When a detection returns a connection, the controller installs it with
  \<^verbatim>\<open>quota_manager.init\<close>, starts polling with the configured interval if the configuration
  read at the start of that attempt has \<open>enabled\<close> set, and makes no polling call
  otherwise; it sets \<open>is_initialized\<close>. From then on every call of
  \<^verbatim>\<open>initialize_extension\<close> returns at once, and as long as no reconnect command is issued
  \<open>is_initialized\<close> stays set and no further detection is started, whatever else
  happens, a timer set earlier included.
\<close>

theorem success_installs_and_halts:
  "i < length (in_flight s) \<Longrightarrow>
     emitted (DetectSettled i (Found info)) s =
       QuotaManager (Init (connect_port info) (csrf_token info)) #
       (if enabled (snd (in_flight s ! i))
        then [QuotaManager (StartPolling (polling_interval (snd (in_flight s ! i))))]
        else []) \<and>
     is_initialized (step (DetectSettled i (Found info)) s) \<and>
     initialize_extension cfg a (step (DetectSettled i (Found info)) s) =
       step (DetectSettled i (Found info)) s \<and>
     ((\<forall>e\<in>set es. \<not> is_reconnect e) \<longrightarrow>
        is_initialized (run es (step (DetectSettled i (Found info)) s)) \<and>
        detections (run es (step (DetectSettled i (Found info)) s)) =
          detections (step (DetectSettled i (Found info)) s))"
proof -
  assume i: "i < length (in_flight s)"
  let ?s' = "step (DetectSettled i (Found info)) s"
  have 1: "emitted (DetectSettled i (Found info)) s =
       QuotaManager (Init (connect_port info) (csrf_token info)) #
       (if enabled (snd (in_flight s ! i))
        then [QuotaManager (StartPolling (polling_interval (snd (in_flight s ! i))))]
        else [])"
    using i by (simp add: emitted_def detect_settled_cases split: prod.splits)
  have 2: "is_initialized ?s'"
    using i by (simp add: detect_settled_cases split: prod.splits)
  have 3: "initialize_extension cfg a ?s' = ?s'"
    using 2 by (rule initialize_extension_done)
  have 4: "(\<forall>e\<in>set es. \<not> is_reconnect e) \<longrightarrow>
        is_initialized (run es ?s') \<and> detections (run es ?s') = detections ?s'"
    using initialized_run [OF 2] by blast
  show ?thesis using 1 2 3 4 by (simp only: simp_thms)
qed

text \<open>
  The witness: the first detection fails, the second chain is started by the activate
  command and succeeds; afterwards the timer of the first chain runs, the activate
  command is issued again and the extension is deactivated.
\<close>

theorem success_installs_and_halts_witness:
  "emitted (DetectSettled 0 (Found example_info))
     (run [Activate example_config, DetectSettled 0 NotFound, CmdActivate example_config]
        (init_state :: unit state)) =
     [QuotaManager (Init 42101 ''s3cr3t-t0ken''), QuotaManager (StartPolling 120000)] \<and>
   \<not> is_reconnect (TimerFire 0 example_config :: unit event) \<and>
   \<not> is_reconnect (CmdActivate example_config :: unit event) \<and>
   \<not> is_reconnect (Deactivate :: unit event) \<and>
   is_initialized (run [TimerFire 0 example_config, CmdActivate example_config, Deactivate]
     (step (DetectSettled 0 (Found example_info))
        (run [Activate example_config, DetectSettled 0 NotFound, CmdActivate example_config]
           (init_state :: unit state)))) \<and>
   detections (run [TimerFire 0 example_config, CmdActivate example_config, Deactivate]
     (step (DetectSettled 0 (Found example_info))
        (run [Activate example_config, DetectSettled 0 NotFound, CmdActivate example_config]
           (init_state :: unit state)))) = 2"
proof -
  let ?s = "run [Activate example_config, DetectSettled 0 NotFound, CmdActivate example_config]
      (init_state :: unit state)"
  let ?es = "[TimerFire 0 example_config, CmdActivate example_config, Deactivate :: unit event]"
  have s: "?s = \<lparr>is_initialized = False, activated = True,
      in_flight = [(0, example_config)], timers = [(5000, 1)],
      effects = [StatusBar (ShowLoading None), DetectProcessInfo, SetTimeout 5000 1,
        StatusBar (ShowLoading None), DetectProcessInfo]\<rparr>"
    by (simp add: init_state_def handler_defs Let_def loading_text_def)
  have i: "0 < length (in_flight ?s)"
    unfolding s by simp
  have es: "\<forall>e\<in>set ?es. \<not> is_reconnect e"
    by simp
  note t = success_installs_and_halts [OF i, of example_info example_config 0 ?es]
  have 1: "emitted (DetectSettled 0 (Found example_info)) ?s =
      [QuotaManager (Init 42101 ''s3cr3t-t0ken''), QuotaManager (StartPolling 120000)]"
    using t [THEN conjunct1] unfolding s
    by (simp add: example_config_def example_info_def del: step.simps)
  have 2: "is_initialized (run ?es (step (DetectSettled 0 (Found example_info)) ?s)) \<and>
      detections (run ?es (step (DetectSettled 0 (Found example_info)) ?s)) =
        detections (step (DetectSettled 0 (Found example_info)) ?s)"
    using t es by blast
  have 3: "detections (step (DetectSettled 0 (Found example_info)) ?s) = 2"
    unfolding s by (simp add: detections_def detect_settled_cases)
  show ?thesis using 1 2 3 by simp
qed

text \<open>
  C6 as stated fails: with \<open>enabled\<close> unset in the configuration, a successful detection
  installs the connection but never calls \<^verbatim>\<open>start_polling\<close>.
\<close>

theorem no_polling_when_disabled:
  "effects (run [Activate disabled_config, DetectSettled 0 (Found example_info)]
     (init_state :: unit state)) =
     [StatusBar (ShowLoading None), DetectProcessInfo,
      QuotaManager (Init 42101 ''s3cr3t-t0ken'')]"
  by (simp add: init_state_def handler_defs Let_def remove_nth_def loading_text_def
      disabled_config_def example_info_def)

subsection \<open>C7: entering the waiting state\<close>

text \<open>
  C7. When a detection of attempt 21 or later fails, by not-found or by an exception, the
  handler shows the waiting signal and makes no other call. More generally, whenever the
  handling of an event shows the waiting signal, that signal is the only call it makes:
  no error signal on the status bar, no message window.
\<close>

theorem entering_waiting_is_silent:
  "(i < length (in_flight s) \<and> 21 \<le> fst (in_flight s ! i) \<and>
      (r = NotFound \<or> r = Raised (ErrorObject m))
      \<longrightarrow> emitted (DetectSettled i r) s = [StatusBar ShowWaiting]) \<and>
   (StatusBar ShowWaiting \<in> set (emitted e s) \<longrightarrow> emitted e s = [StatusBar ShowWaiting])"
proof (intro conjI impI)
  assume "i < length (in_flight s) \<and> 21 \<le> fst (in_flight s ! i) \<and>
      (r = NotFound \<or> r = Raised (ErrorObject m))"
  then show "emitted (DetectSettled i r) s = [StatusBar ShowWaiting]"
    by (auto simp add: emitted_def detect_settled_cases split: prod.splits)
next
  assume "StatusBar ShowWaiting \<in> set (emitted e s)"
  then show "emitted e s = [StatusBar ShowWaiting]"
    by (cases e)
      (simp_all add: emitted_def handler_defs Let_def
        split: if_splits prod.splits detect_result.splits)
qed

theorem entering_waiting_is_silent_witness:
  "0 < length (in_flight (run (all_not_found example_config 21) (init_state :: unit state))) \<and>
   21 \<le> fst (in_flight (run (all_not_found example_config 21) (init_state :: unit state)) ! 0) \<and>
   StatusBar ShowWaiting \<in> set (emitted (DetectSettled 0 (Raised (ErrorObject ''spawn EPERM'')))
     (run (all_not_found example_config 21) (init_state :: unit state))) \<and>
   emitted (DetectSettled 0 (Raised (ErrorObject ''spawn EPERM'')))
     (run (all_not_found example_config 21) (init_state :: unit state)) =
     [StatusBar ShowWaiting]"
proof -
  let ?s = "run (all_not_found example_config 21) (init_state :: unit state)"
  let ?e = "DetectSettled 0 (Raised (ErrorObject ''spawn EPERM'')) :: unit event"
  have h: "0 < length (in_flight ?s) \<and> 21 \<le> fst (in_flight ?s ! 0)"
    by (simp add: after_rounds)
  have 1: "emitted ?e ?s = [StatusBar ShowWaiting]"
    using entering_waiting_is_silent [of 0 ?s "Raised (ErrorObject ''spawn EPERM'')" "''spawn EPERM''" ?e] h
    by blast
  have 2: "StatusBar ShowWaiting \<in> set (emitted ?e ?s)"
    unfolding 1 by simp
  show ?thesis using h 1 2 by (simp only: simp_thms)
qed

subsection \<open>C8: the loading signal and its attempt count\<close>

text \<open>
  C8. A call of \<^verbatim>\<open>initialize_extension\<close> that does not return at once shows the loading
  signal exactly once, before it starts the detection. The signal carries a text exactly
  when the attempt number is greater than 0, and the text is then the attempt number and
  21, written \<^verbatim>\<open>(attempt/21)\<close>; on attempt 0 it carries none.
\<close>

theorem loading_annotation:
  "\<not> is_initialized s \<Longrightarrow>
     effects (initialize_extension cfg attempt s) =
       effects s @
       [StatusBar (ShowLoading
          (if 0 < attempt then Some (''('' @ show_nat attempt @ ''/21)'') else None)),
        DetectProcessInfo]"
  by (simp add: initialize_extension_fresh loading_text_def show_nat_MAX_ATTEMPTS)

theorem loading_annotation_witness:
  "\<not> is_initialized (init_state :: unit state) \<and>
   effects (initialize_extension example_config 3 (init_state :: unit state)) =
     [StatusBar (ShowLoading (Some ''(3/21)'')), DetectProcessInfo] \<and>
   effects (initialize_extension example_config 0 (init_state :: unit state)) =
     [StatusBar (ShowLoading None), DetectProcessInfo]"
  using loading_annotation [of "init_state :: unit state" example_config 3]
    loading_annotation [of "init_state :: unit state" example_config 0]
  by (simp add: init_state_def show_nat.simps digit_char_def)

subsection \<open>C9: configuration changes and manual refresh\<close>

text \<open>
  C9. Once the extension is activated, a configuration change with \<open>enabled\<close> set calls
  \<^verbatim>\<open>start_polling\<close> with the new polling interval and one with \<open>enabled\<close> unset calls
  \<^verbatim>\<open>stop_polling\<close>; the refresh command shows its message and calls \<^verbatim>\<open>fetch_quota\<close>
  once. Neither changes anything else.
\<close>

theorem config_change_and_refresh:
  "activated s \<Longrightarrow>
     step (ConfigChange new_config) s =
       s\<lparr>effects := effects s @
          [QuotaManager (if enabled new_config then StartPolling (polling_interval new_config)
                         else StopPolling)]\<rparr> \<and>
     step CmdRefresh s =
       s\<lparr>effects := effects s @
          [Window (ShowInformationMessage ''Refreshing Quota...''), QuotaManager FetchQuota]\<rparr>"
  by (simp add: on_config_change_def cmd_refresh_def emit_def)

theorem config_change_and_refresh_witness:
  "activated (step (Activate example_config) (init_state :: unit state)) \<and>
   emitted (ConfigChange example_config) (step (Activate example_config) (init_state :: unit state)) =
     [QuotaManager (StartPolling 120000)] \<and>
   emitted (ConfigChange disabled_config) (step (Activate example_config) (init_state :: unit state)) =
     [QuotaManager StopPolling] \<and>
   emitted CmdRefresh (step (Activate example_config) (init_state :: unit state)) =
     [Window (ShowInformationMessage ''Refreshing Quota...''), QuotaManager FetchQuota]"
proof -
  let ?s = "step (Activate example_config) (init_state :: unit state)"
  have a: "activated ?s"
    by (simp add: init_state_def activate_def initialize_extension_def emit_def)
  show ?thesis
    using a config_change_and_refresh [OF a, of example_config]
      config_change_and_refresh [OF a, of disabled_config]
    by (simp add: emitted_def example_config_def disabled_config_def)
qed

subsection \<open>C10: deactivation\<close>

text \<open>
  C10. In every state \<^verbatim>\<open>deactivate\<close> calls \<^verbatim>\<open>stop_polling\<close> and disposes the status bar
  (once the managers exist) and changes nothing else: \<open>is_initialized\<close>, the pending
  timers and the detections in flight stay as they are, whether or not the extension is
  initialized and polling. So a timer set before the deactivation still runs afterwards;
  with \<open>is_initialized\<close> unset it starts a detection, and when that detection succeeds
  the connection is installed, \<open>is_initialized\<close> is set and, with \<open>enabled\<close> set in the
  configuration, polling is started again.
\<close>

theorem deactivate_keeps_retry:
  "step Deactivate s =
     s\<lparr>effects := effects s @
        (if activated s then [QuotaManager StopPolling, StatusBar Dispose] else [])\<rparr> \<and>
   is_initialized (step Deactivate s) = is_initialized s \<and>
   timers (step Deactivate s) = timers s \<and>
   in_flight (step Deactivate s) = in_flight s \<and>
   (\<not> is_initialized s \<and> j < length (timers s) \<longrightarrow>
      emitted (TimerFire j cfg) (step Deactivate s) =
        [StatusBar (ShowLoading (loading_text (snd (timers s ! j)))), DetectProcessInfo] \<and>
      emitted (DetectSettled (length (in_flight s)) (Found info))
          (step (TimerFire j cfg) (step Deactivate s)) =
        QuotaManager (Init (connect_port info) (csrf_token info)) #
        (if enabled cfg then [QuotaManager (StartPolling (polling_interval cfg))] else []) \<and>
      is_initialized (step (DetectSettled (length (in_flight s)) (Found info))
          (step (TimerFire j cfg) (step Deactivate s))))"
  by (simp add: deactivate_def emit_def emitted_def timer_fire_fresh detect_settled_cases)

text \<open>
  The witness deactivates an extension that is initialized and polling, where the flag
  stays set, and one that is retrying, where the timer for attempt 1 then runs and its
  detection succeeds.
\<close>

theorem deactivate_keeps_retry_witness:
  "step Deactivate (run [Activate example_config, DetectSettled 0 (Found example_info)]
      (init_state :: unit state)) =
     \<lparr>is_initialized = True, activated = True, in_flight = [], timers = [],
      effects = [StatusBar (ShowLoading None), DetectProcessInfo,
        QuotaManager (Init 42101 ''s3cr3t-t0ken''), QuotaManager (StartPolling 120000),
        QuotaManager StopPolling, StatusBar Dispose]\<rparr> \<and>
   \<not> is_initialized (run [Activate example_config, DetectSettled 0 NotFound]
      (init_state :: unit state)) \<and>
   0 < length (timers (run [Activate example_config, DetectSettled 0 NotFound]
      (init_state :: unit state))) \<and>
   timers (step Deactivate (run [Activate example_config, DetectSettled 0 NotFound]
      (init_state :: unit state))) = [(5000, 1)] \<and>
   effects (run [Activate example_config, DetectSettled 0 NotFound, Deactivate,
      TimerFire 0 example_config, DetectSettled 0 (Found example_info)]
      (init_state :: unit state)) =
     [StatusBar (ShowLoading None), DetectProcessInfo, SetTimeout 5000 1,
      QuotaManager StopPolling, StatusBar Dispose,
      StatusBar (ShowLoading (Some ''(1/21)'')), DetectProcessInfo,
      QuotaManager (Init 42101 ''s3cr3t-t0ken''), QuotaManager (StartPolling 120000)]"
proof -
  let ?p = "run [Activate example_config, DetectSettled 0 (Found example_info)]
      (init_state :: unit state)"
  let ?s = "run [Activate example_config, DetectSettled 0 NotFound] (init_state :: unit state)"
  have p: "?p = \<lparr>is_initialized = True, activated = True, in_flight = [], timers = [],
      effects = [StatusBar (ShowLoading None), DetectProcessInfo,
        QuotaManager (Init 42101 ''s3cr3t-t0ken''), QuotaManager (StartPolling 120000)]\<rparr>"
    by (simp add: init_state_def handler_defs Let_def loading_text_def example_config_def
        example_info_def)
  have s: "?s = \<lparr>is_initialized = False, activated = True, in_flight = [],
      timers = [(5000, 1)],
      effects = [StatusBar (ShowLoading None), DetectProcessInfo, SetTimeout 5000 1]\<rparr>"
    by (simp add: init_state_def handler_defs Let_def loading_text_def)
  have h: "\<not> is_initialized ?s \<and> 0 < length (timers ?s)"
    unfolding s by simp
  note tp = deactivate_keeps_retry [of ?p 0 example_config example_info]
  note t = deactivate_keeps_retry [of ?s 0 example_config example_info]
  have l: "loading_text 1 = Some ''(1/21)''"
    by (simp add: loading_text_def show_nat.simps digit_char_def MAX_ATTEMPTS_def
        MAX_PHASE1_ATTEMPTS_def MAX_PHASE2_ATTEMPTS_def)
  have 0: "step Deactivate ?p =
     \<lparr>is_initialized = True, activated = True, in_flight = [], timers = [],
      effects = [StatusBar (ShowLoading None), DetectProcessInfo,
        QuotaManager (Init 42101 ''s3cr3t-t0ken''), QuotaManager (StartPolling 120000),
        QuotaManager StopPolling, StatusBar Dispose]\<rparr>"
    using tp [THEN conjunct1] unfolding p by (simp del: step.simps)
  have 1: "effects (step Deactivate ?s) =
      [StatusBar (ShowLoading None), DetectProcessInfo, SetTimeout 5000 1,
       QuotaManager StopPolling, StatusBar Dispose]"
    using t [THEN conjunct1] unfolding s by (simp del: step.simps)
  have tm: "timers (step Deactivate ?s) = [(5000, 1)]"
    using t [THEN conjunct2, THEN conjunct2, THEN conjunct1] unfolding s
    by (simp del: step.simps)
  have e2: "emitted (TimerFire 0 example_config) (step Deactivate ?s) =
      [StatusBar (ShowLoading (Some ''(1/21)'')), DetectProcessInfo]"
    using t [THEN conjunct2, THEN conjunct2, THEN conjunct2, THEN conjunct2] h l
    unfolding s by (simp del: step.simps)
  have e3: "emitted (DetectSettled 0 (Found example_info))
        (step (TimerFire 0 example_config) (step Deactivate ?s)) =
      [QuotaManager (Init 42101 ''s3cr3t-t0ken''), QuotaManager (StartPolling 120000)]"
    using t [THEN conjunct2, THEN conjunct2, THEN conjunct2, THEN conjunct2] h
    unfolding s by (simp add: example_config_def example_info_def del: step.simps)
  have r: "run [Activate example_config, DetectSettled 0 NotFound, Deactivate,
      TimerFire 0 example_config, DetectSettled 0 (Found example_info)]
      (init_state :: unit state) =
    step (DetectSettled 0 (Found example_info))
      (step (TimerFire 0 example_config) (step Deactivate ?s))"
    by (simp del: step.simps)
  have 4: "effects (step (DetectSettled 0 (Found example_info))
        (step (TimerFire 0 example_config) (step Deactivate ?s))) =
      [StatusBar (ShowLoading None), DetectProcessInfo, SetTimeout 5000 1,
       QuotaManager StopPolling, StatusBar Dispose,
       StatusBar (ShowLoading (Some ''(1/21)'')), DetectProcessInfo,
       QuotaManager (Init 42101 ''s3cr3t-t0ken''), QuotaManager (StartPolling 120000)]"
    by (simp only: effects_step [of "DetectSettled 0 (Found example_info)"]
        effects_step [of "TimerFire 0 example_config"] e2 e3 1) simp
  show ?thesis
    using 0 h tm 4 unfolding r by (simp only: simp_thms)
qed

end
